theory Spec2Isabelle
  imports Main "HOL-Library.Word"
begin

unbundle bit_operations_syntax

section \<open>Storage model of \<open>param_types.h\<close>\<close>

text \<open>
  A parameterized data type keeps every value in one field of type \<open>GenPtr\<close> (\<open>void*\<close>).
  The header writes a value of type \<open>T\<close> either into the bytes of that field (placement
  \<open>new\<close>) or into dynamic memory, and reads it back by reinterpreting the field. The model
  therefore works on object representations: a \<open>GenPtr\<close> is the list of its
  \<open>sizeof(GenPtr)\<close> bytes, and a type \<open>T\<close> is given by a descriptor that says how many
  bytes a \<open>T\<close> occupies, how a value is laid out in them, and what its constructors yield.
\<close>

type_synonym byte = "8 word"

type_synonym GenPtr = "byte list"

text \<open>
  What the build fixes: the size of a pointer, whether the configuration macro
  \<open>WORD_LENGTH_32\<close> is defined (it comes from the preamble headers; the header only
  tests it, in lines 167 and 227), and whether a floating-point value is moved through
  an x87 register, as the compilers of a 32-bit x86 build do, or bit for bit.
\<close>

record platform =
  sizeof_GenPtr :: nat
  WORD_LENGTH_32 :: bool
  fp_via_x87 :: bool

definition build32 :: platform where
  "build32 = \<lparr>sizeof_GenPtr = 4, WORD_LENGTH_32 = True, fp_via_x87 = True\<rparr>"

definition build64 :: platform where
  "build64 = \<lparr>sizeof_GenPtr = 8, WORD_LENGTH_32 = False, fp_via_x87 = False\<rparr>"

datatype fault =
    Fatal int string    \<comment> \<open>\<open>error_handler\<close> was called with this number and message\<close>
  | Null_call           \<comment> \<open>a call through a null function pointer\<close>
  | Invalid_pointer     \<comment> \<open>a read or a release through a pointer to no live block\<close>

subsection \<open>Dynamic memory\<close>

text \<open>
  \<open>cells\<close> maps the representation of a pointer to the bytes of the live block it points
  to. \<open>brk\<close> is the next address the allocator hands out and \<open>fill\<close> is what storage
  holds before anything is constructed in it. \<open>allocs\<close> and \<open>frees\<close> count the calls of
  the allocator, \<open>dtor_calls\<close> the destructor runs.
\<close>

record memory =
  cells :: "GenPtr \<rightharpoonup> byte list"
  brk :: nat
  fill :: byte
  allocs :: nat
  frees :: nat
  dtor_calls :: nat

definition ptr_bytes :: "nat \<Rightarrow> nat \<Rightarrow> GenPtr" where
  "ptr_bytes n a = map (\<lambda>i. of_nat (a div 256 ^ i)) [0..<n]"

text \<open>
  Modelled from the spec: the allocator behind \<open>new\<close>, \<open>delete\<close> and
  \<open>std_memory\<close> is not part of the header; the spec treats it as a service offering
  \<open>allocate(n)\<close> and \<open>deallocate(p,n)\<close>. \<open>allocate_bytes\<close> hands out a fresh block of
  \<open>n\<close> bytes, not initialised; \<open>deallocate_bytes\<close> releases a live block and is a fault
  on anything else.
\<close>

definition allocate_bytes :: "platform \<Rightarrow> nat \<Rightarrow> memory \<Rightarrow> GenPtr \<times> memory" where
  "allocate_bytes pf n m =
     (let p = ptr_bytes (sizeof_GenPtr pf) (brk m)
      in (p, m\<lparr>cells := (cells m)(p \<mapsto> replicate n (fill m)),
               brk := brk m + max n 1,
               allocs := allocs m + 1\<rparr>))"

definition deallocate_bytes :: "GenPtr \<Rightarrow> memory \<Rightarrow> fault + memory" where
  "deallocate_bytes p m =
     (case cells m p of
        None \<Rightarrow> Inl Invalid_pointer
      | Some bs \<Rightarrow> Inr (m\<lparr>cells := (cells m)(p := None), frees := frees m + 1\<rparr>))"

subsection \<open>Types\<close>

text \<open>
  The template parameter \<open>T\<close>. \<open>value_init\<close> is the value of the expression \<open>T()\<close>,
  \<open>copy_ctor x\<close> the value of \<open>T(x)\<close>. \<open>default_init\<close> is what \<open>new T\<close> (no
  parentheses) constructs: \<open>Some v\<close> when a default constructor runs, \<open>None\<close> for a
  type without one (a scalar), whose storage \<open>new T\<close> leaves as allocated. Constructors
  and the destructor are code of \<open>T\<close>, not of the header: they are values here, and any
  allocation of their own is outside the model.
\<close>

record 'a ctype =
  sizeof :: nat
  to_bytes :: "'a \<Rightarrow> byte list"
  from_bytes :: "byte list \<Rightarrow> 'a"
  value_init :: 'a
  default_init :: "'a option"
  copy_ctor :: "'a \<Rightarrow> 'a"

text \<open>The object a \<open>T&\<close> designates: the bytes of the slot itself, or a block in memory.\<close>

datatype lvalue = In_slot | At GenPtr

record 'a ref =
  target :: lvalue
  held :: 'a

subsection \<open>Built-in scalar types\<close>

text \<open>
  A scalar is its bit pattern, stored least significant byte first. \<open>float\<close> and
  \<open>double\<close> are the IEEE 754 encodings; \<open>long\<close> is 4 bytes (ILP32, LLP64) or 8 (LP64).
\<close>

definition word_to_bytes :: "'a::len word \<Rightarrow> byte list" where
  "word_to_bytes w = map (\<lambda>i. ucast (drop_bit (8 * i) w)) [0..<LENGTH('a) div 8]"

definition word_from_bytes :: "byte list \<Rightarrow> 'a::len word" where
  "word_from_bytes bs = word_of_int (horner_sum uint 256 bs)"

definition scalar_type :: "'a::len word ctype" where
  "scalar_type =
     \<lparr>sizeof = LENGTH('a) div 8, to_bytes = word_to_bytes, from_bytes = word_from_bytes,
      value_init = 0, default_init = None, copy_ctor = (\<lambda>x. x)\<rparr>"

definition char_type :: "8 word ctype" where "char_type = scalar_type"
definition short_type :: "16 word ctype" where "short_type = scalar_type"
definition int_type :: "32 word ctype" where "int_type = scalar_type"
definition long_type4 :: "32 word ctype" where "long_type4 = scalar_type"
definition long_type8 :: "64 word ctype" where "long_type8 = scalar_type"
definition uchar_type :: "8 word ctype" where "uchar_type = scalar_type"
definition ushort_type :: "16 word ctype" where "ushort_type = scalar_type"
definition uint_type :: "32 word ctype" where "uint_type = scalar_type"
definition ulong_type4 :: "32 word ctype" where "ulong_type4 = scalar_type"
definition ulong_type8 :: "64 word ctype" where "ulong_type8 = scalar_type"
definition float_type :: "32 word ctype" where "float_type = scalar_type"
definition double_type :: "64 word ctype" where "double_type = scalar_type"

text \<open>
  The conversion of an \<open>int\<close> to a floating type with \<open>eb\<close> exponent bits and \<open>fb\<close>
  fraction bits, rounding to nearest, ties to even; the result is the encoding.
\<close>

fun bitlen :: "nat \<Rightarrow> nat" where
  "bitlen n = (if n = 0 then 0 else Suc (bitlen (n div 2)))"

definition ieee_of_int :: "nat \<Rightarrow> nat \<Rightarrow> int \<Rightarrow> nat" where
  "ieee_of_int eb fb i =
     (if i = 0 then 0
      else
        let s = (if i < 0 then 1 else 0);
            m = nat \<bar>i\<bar>;
            k = bitlen m - 1;
            d = 2 ^ (k - fb);
            q = (if k \<le> fb then m * 2 ^ (fb - k)
                 else if 2 * (m mod d) > d \<or> (2 * (m mod d) = d \<and> odd (m div d))
                 then m div d + 1 else m div d);
            k' = (if q = 2 ^ (fb + 1) then k + 1 else k);
            q' = (if q = 2 ^ (fb + 1) then 2 ^ fb else q);
            bias = 2 ^ (eb - 1) - 1
        in if k' > bias then s * 2 ^ (eb + fb) + (2 ^ eb - 1) * 2 ^ fb
           else s * 2 ^ (eb + fb) + (k' + bias) * 2 ^ fb + (q' - 2 ^ fb))"

definition float_of_int :: "int \<Rightarrow> 32 word" where
  "float_of_int i = of_nat (ieee_of_int 8 23 i)"

definition double_of_int :: "int \<Rightarrow> 64 word" where
  "double_of_int i = of_nat (ieee_of_int 11 52 i)"


definition is_nan64 :: "64 word \<Rightarrow> bool" where
  "is_nan64 x \<longleftrightarrow>
     x AND 0x7FF0000000000000 = 0x7FF0000000000000 \<and> x AND 0x000FFFFFFFFFFFFF \<noteq> 0"


definition double_move :: "platform \<Rightarrow> 64 word \<Rightarrow> 64 word" where
  "double_move pf x = (if fp_via_x87 pf \<and> is_nan64 x then x OR 0x0008000000000000 else x)"





subsection \<open>Error reporting\<close>

text \<open>
  Modelled from the spec: \<open>error_handler\<close> is declared outside the header. The spec
  describes it as the single fatal error-reporting hook, which reports and does not
  attempt recovery: the call does not return, and the fault carries what was reported.
\<close>

definition error_handler :: "int \<Rightarrow> string \<Rightarrow> fault + unit" where
  "error_handler err_no msg = Inl (Fatal err_no msg)"

section \<open>The default input operator for pointers\<close>

text \<open>
  \<open>operator>>(istream& in, GenPtr)\<close>, lines 70-71. The pointer is an unnamed by-value
  parameter. The result pairs the outcome (the stream, when the call returns) with the
  caller's pointer as it is after the call.
\<close>

definition operator_in :: "'s \<Rightarrow> GenPtr \<Rightarrow> (fault + 's) \<times> GenPtr" where
  "operator_in ins p =
     (case error_handler 1 ''stream input operator (>>) not defined'' of
        Inl e \<Rightarrow> (Inl e, p)
      | Inr u \<Rightarrow> (Inr ins, p))"

section \<open>The function templates\<close>

definition in_place_create :: "GenPtr \<Rightarrow> 'a ctype \<Rightarrow> GenPtr" where
  "in_place_create p ty = to_bytes ty (value_init ty) @ drop (sizeof ty) p"

definition new_default :: "platform \<Rightarrow> 'a ctype \<Rightarrow> memory \<Rightarrow> GenPtr \<times> memory" where
  "new_default pf ty m =
     (let (a, m1) = allocate_bytes pf (sizeof ty) m
      in case default_init ty of
           None \<Rightarrow> (a, m1)
         | Some v \<Rightarrow> (a, m1\<lparr>cells := (cells m1)(a \<mapsto> to_bytes ty v)\<rparr>))"

definition leda_create :: "platform \<Rightarrow> 'a ctype \<Rightarrow> memory \<Rightarrow> GenPtr \<times> memory" where
  "leda_create pf ty m =
     (let p = replicate (sizeof_GenPtr pf) 0
      in if sizeof ty \<le> sizeof_GenPtr pf then (in_place_create p ty, m)
         else new_default pf ty m)"

definition in_place_copy :: "GenPtr \<Rightarrow> 'a ctype \<Rightarrow> 'a \<Rightarrow> GenPtr" where
  "in_place_copy p ty x = to_bytes ty (copy_ctor ty x) @ drop (sizeof ty) p"

definition new_copy :: "platform \<Rightarrow> 'a ctype \<Rightarrow> 'a \<Rightarrow> memory \<Rightarrow> GenPtr \<times> memory" where
  "new_copy pf ty x m =
     (let (a, m1) = allocate_bytes pf (sizeof ty) m
      in (a, m1\<lparr>cells := (cells m1)(a \<mapsto> to_bytes ty (copy_ctor ty x))\<rparr>))"

definition leda_copy :: "platform \<Rightarrow> 'a ctype \<Rightarrow> 'a \<Rightarrow> memory \<Rightarrow> GenPtr \<times> memory" where
  "leda_copy pf ty x m =
     (let p = replicate (sizeof_GenPtr pf) 0
      in if sizeof ty \<le> sizeof_GenPtr pf then (in_place_copy p ty x, m)
         else new_copy pf ty x m)"

text \<open>
  \<open>leda_cast(const T& x)\<close>: the argument is the object \<open>x\<close> and its address. The
  three tests of lines 114-116 are exhaustive.
\<close>

definition leda_cast :: "platform \<Rightarrow> 'a ctype \<Rightarrow> GenPtr \<times> 'a \<Rightarrow> memory \<Rightarrow> GenPtr \<times> memory" where
  "leda_cast pf ty ax m =
     (if sizeof ty > sizeof_GenPtr pf then (fst ax, m)
      else if sizeof ty = sizeof_GenPtr pf then (to_bytes ty (snd ax), m)
      else leda_copy pf ty (snd ax) m)"

definition run_dtor :: "memory \<Rightarrow> memory" where
  "run_dtor m = m\<lparr>dtor_calls := dtor_calls m + 1\<rparr>"

definition op_delete :: "GenPtr \<Rightarrow> memory \<Rightarrow> fault + memory" where
  "op_delete a m = deallocate_bytes a (run_dtor m)"

definition leda_clear :: "platform \<Rightarrow> 'a ctype \<Rightarrow> lvalue \<Rightarrow> memory \<Rightarrow> fault + memory" where
  "leda_clear pf ty x m =
     (if sizeof ty \<le> sizeof_GenPtr pf then Inr (run_dtor m)
      else (case x of At a \<Rightarrow> op_delete a m | In_slot \<Rightarrow> Inl Invalid_pointer))"

definition leda_access :: "platform \<Rightarrow> 'a ctype \<Rightarrow> GenPtr \<Rightarrow> memory \<Rightarrow> fault + 'a ref" where
  "leda_access pf ty p m =
     (if sizeof ty \<le> sizeof_GenPtr pf
      then Inr \<lparr>target = In_slot, held = from_bytes ty (take (sizeof ty) p)\<rparr>
      else (case cells m p of
              None \<Rightarrow> Inl Invalid_pointer
            | Some bs \<Rightarrow> Inr \<lparr>target = At p, held = from_bytes ty bs\<rparr>))"

definition leda_const_access :: "platform \<Rightarrow> 'a ctype \<Rightarrow> GenPtr \<Rightarrow> memory \<Rightarrow> fault + 'a ref" where
  "leda_const_access pf ty p m =
     (if sizeof ty \<le> sizeof_GenPtr pf
      then Inr \<lparr>target = In_slot, held = from_bytes ty (take (sizeof ty) p)\<rparr>
      else (case cells m p of
              None \<Rightarrow> Inl Invalid_pointer
            | Some bs \<Rightarrow> Inr \<lparr>target = At p, held = from_bytes ty bs\<rparr>))"

text \<open>The macro \<open>LEDA_CLEAR(T,x)\<close>, line 413: \<open>leda_clear(leda_access((T*)0, x))\<close>.\<close>

definition LEDA_CLEAR :: "platform \<Rightarrow> 'a ctype \<Rightarrow> GenPtr \<Rightarrow> memory \<Rightarrow> fault + memory" where
  "LEDA_CLEAR pf ty p m =
     (case leda_access pf ty p m of
        Inl e \<Rightarrow> Inl e
      | Inr r \<Rightarrow> leda_clear pf ty (target r) m)"

section \<open>The overloads for \<open>double\<close> under \<open>WORD_LENGTH_32\<close>\<close>

text \<open>
  Lines 167-193. They take the storage from \<open>std_memory\<close> and never look at
  \<open>sizeof\<close>; \<open>leda_clear\<close> gives the bytes back without a destructor call. The
  assignment \<open>*(double*)p = x\<close> of line 171 is a floating-point move.
\<close>

definition leda_copy_double :: "platform \<Rightarrow> 64 word \<Rightarrow> memory \<Rightarrow> GenPtr \<times> memory" where
  "leda_copy_double pf x m =
     (let (p, m1) = allocate_bytes pf (sizeof double_type) m
      in (p, m1\<lparr>cells := (cells m1)(p \<mapsto> word_to_bytes (double_move pf x))\<rparr>))"

definition leda_create_double :: "platform \<Rightarrow> memory \<Rightarrow> GenPtr \<times> memory" where
  "leda_create_double pf m =
     (let (p, m1) = allocate_bytes pf (sizeof double_type) m
      in (p, m1\<lparr>cells := (cells m1)(p \<mapsto> word_to_bytes (double_of_int 0))\<rparr>))"

definition leda_clear_double :: "lvalue \<Rightarrow> memory \<Rightarrow> fault + memory" where
  "leda_clear_double x m =
     (case x of At a \<Rightarrow> deallocate_bytes a m | In_slot \<Rightarrow> Inl Invalid_pointer)"

definition leda_cast_double :: "GenPtr \<times> 64 word \<Rightarrow> GenPtr" where
  "leda_cast_double ax = fst ax"

definition leda_access_double :: "GenPtr \<Rightarrow> memory \<Rightarrow> fault + 64 word ref" where
  "leda_access_double p m =
     (case cells m p of
        None \<Rightarrow> Inl Invalid_pointer
      | Some bs \<Rightarrow> Inr \<lparr>target = At p, held = word_from_bytes bs\<rparr>)"

definition leda_const_access_double :: "GenPtr \<Rightarrow> memory \<Rightarrow> fault + 64 word ref" where
  "leda_const_access_double p m =
     (case cells m p of
        None \<Rightarrow> Inl Invalid_pointer
      | Some bs \<Rightarrow> Inr \<lparr>target = At p, held = word_from_bytes bs\<rparr>)"




definition const_access_at_double :: "platform \<Rightarrow> GenPtr \<Rightarrow> memory \<Rightarrow> fault + 64 word ref" where
  "const_access_at_double pf p m =
     (if WORD_LENGTH_32 pf then leda_const_access_double p m
      else leda_const_access pf double_type p m)"

definition clear_at_double :: "platform \<Rightarrow> lvalue \<Rightarrow> memory \<Rightarrow> fault + memory" where
  "clear_at_double pf x m =
     (if WORD_LENGTH_32 pf then leda_clear_double x m else leda_clear pf double_type x m)"

text \<open>\<open>LEDA_CLEAR(double,x)\<close> where the overloads are declared.\<close>

definition LEDA_CLEAR_double :: "GenPtr \<Rightarrow> memory \<Rightarrow> fault + memory" where
  "LEDA_CLEAR_double p m =
     (case leda_access_double p m of
        Inl e \<Rightarrow> Inl e
      | Inr r \<Rightarrow> leda_clear_double (target r) m)"

text \<open>
  The comment of lines 162-163 says when the overloads are meant to be there: if
  \<open>sizeof(double) > sizeof(GenPtr)\<close>. A build is consistent when \<open>WORD_LENGTH_32\<close> is
  defined in exactly that case.
\<close>

definition consistent_build :: "platform \<Rightarrow> bool" where
  "consistent_build pf \<longleftrightarrow>
     (WORD_LENGTH_32 pf \<longleftrightarrow> sizeof double_type > sizeof_GenPtr pf)"



section \<open>Pre-defined linear orders\<close>

text \<open>
  \<open>compare\<close>, lines 290-295; the operator \<open><\<close> of \<open>T\<close> is the parameter \<open>lt\<close>. A
  function pointer is \<open>None\<close> when null.
\<close>

definition compare :: "('a \<Rightarrow> 'a \<Rightarrow> bool) \<Rightarrow> 'a \<Rightarrow> 'a \<Rightarrow> int" where
  "compare lt x y = (if lt x y then - 1 else if lt y x then 1 else 0)"

definition smaller_default :: "('a \<Rightarrow> 'a \<Rightarrow> bool) \<Rightarrow> 'a \<Rightarrow> 'a \<Rightarrow> bool" where
  "smaller_default lt x y = (compare lt x y < 0)"

definition smaller_cmp_func :: "('a \<Rightarrow> 'a \<Rightarrow> int) option \<Rightarrow> 'a \<Rightarrow> 'a \<Rightarrow> fault + bool" where
  "smaller_cmp_func cmp x y =
     (case cmp of None \<Rightarrow> Inl Null_call | Some c \<Rightarrow> Inr (c x y < 0))"

definition smaller_cmp_obj :: "('a \<Rightarrow> 'a \<Rightarrow> int) \<Rightarrow> 'a \<Rightarrow> 'a \<Rightarrow> bool" where
  "smaller_cmp_obj cmp x y = (cmp x y < 0)"

record 'a leda_cmp_base =
  cmp :: "('a \<Rightarrow> 'a \<Rightarrow> int) option"
  dynamic :: bool

definition leda_cmp_base_ctor :: "('a \<Rightarrow> 'a \<Rightarrow> int) option \<Rightarrow> bool \<Rightarrow> 'a leda_cmp_base" where
  "leda_cmp_base_ctor c dyn = \<lparr>cmp = c, dynamic = dyn\<rparr>"

text \<open>The default arguments of the constructor, line 335: \<open>c = 0\<close>, \<open>dyn = false\<close>.\<close>

definition leda_cmp_base_default :: "'a leda_cmp_base" where
  "leda_cmp_base_default = leda_cmp_base_ctor None False"

definition is_dynamic :: "'a leda_cmp_base \<Rightarrow> bool" where
  "is_dynamic b = dynamic b"

definition leda_cmp_base_call :: "'a leda_cmp_base \<Rightarrow> 'a \<Rightarrow> 'a \<Rightarrow> fault + int" where
  "leda_cmp_base_call b x y =
     (case (if cmp b = None then error_handler 1 ''leda_cmp_base: compare undefined''
            else Inr ()) of
        Inl e \<Rightarrow> Inl e
      | Inr u \<Rightarrow> (case cmp b of None \<Rightarrow> Inl Null_call | Some f \<Rightarrow> Inr (f x y)))"

text \<open>
  The properties a comparison operator may have: a strict order is irreflexive and
  transitive; it is a strict weak order when being incomparable is transitive too.
\<close>

definition strict_order :: "('a \<Rightarrow> 'a \<Rightarrow> bool) \<Rightarrow> bool" where
  "strict_order lt \<longleftrightarrow>
     (\<forall>x. \<not> lt x x) \<and> (\<forall>x y z. lt x y \<longrightarrow> lt y z \<longrightarrow> lt x z)"

definition strict_weak_order :: "('a \<Rightarrow> 'a \<Rightarrow> bool) \<Rightarrow> bool" where
  "strict_weak_order lt \<longleftrightarrow>
     strict_order lt \<and>
     (\<forall>x y z. \<not> lt x y \<and> \<not> lt y x \<longrightarrow> \<not> lt y z \<and> \<not> lt z y \<longrightarrow> \<not> lt x z \<and> \<not> lt z x)"

section \<open>Default values\<close>

text \<open>
  \<open>leda_init_default\<close>, lines 382-399: the argument is passed by reference, the result
  is its value after the call. The template assigns \<open>T()\<close>; each overload assigns the
  \<open>int\<close> literal \<open>0\<close>, converted to the type of \<open>x\<close>.
\<close>

definition leda_init_default :: "'a ctype \<Rightarrow> 'a \<Rightarrow> 'a" where
  "leda_init_default ty x = value_init ty"

definition leda_init_default_char :: "8 word \<Rightarrow> 8 word" where
  "leda_init_default_char x = word_of_int 0"

definition leda_init_default_short :: "16 word \<Rightarrow> 16 word" where
  "leda_init_default_short x = word_of_int 0"

definition leda_init_default_int :: "32 word \<Rightarrow> 32 word" where
  "leda_init_default_int x = word_of_int 0"

definition leda_init_default_long :: "'l::len word \<Rightarrow> 'l word" where
  "leda_init_default_long x = word_of_int 0"

definition leda_init_default_uchar :: "8 word \<Rightarrow> 8 word" where
  "leda_init_default_uchar x = word_of_int 0"

definition leda_init_default_ushort :: "16 word \<Rightarrow> 16 word" where
  "leda_init_default_ushort x = word_of_int 0"

definition leda_init_default_uint :: "32 word \<Rightarrow> 32 word" where
  "leda_init_default_uint x = word_of_int 0"

definition leda_init_default_ulong :: "'l::len word \<Rightarrow> 'l word" where
  "leda_init_default_ulong x = word_of_int 0"

definition leda_init_default_float :: "32 word \<Rightarrow> 32 word" where
  "leda_init_default_float x = float_of_int 0"

definition leda_init_default_double :: "64 word \<Rightarrow> 64 word" where
  "leda_init_default_double x = double_of_int 0"

section \<open>A memory to run examples in\<close>

definition fresh_memory :: memory where
  "fresh_memory =
     \<lparr>cells = Map.empty, brk = 4096, fill = 0xAA, allocs = 0, frees = 0, dtor_calls = 0\<rparr>"

section \<open>Object representations of the scalars\<close>




section \<open>Copying and reading back\<close>

lemma scalar_type_simps:
  "sizeof (scalar_type :: 'a::len word ctype) = LENGTH('a) div 8"
  "to_bytes (scalar_type :: 'a::len word ctype) = word_to_bytes"
  "from_bytes (scalar_type :: 'a::len word ctype) = word_from_bytes"
  "value_init (scalar_type :: 'a::len word ctype) = 0"
  "default_init (scalar_type :: 'a::len word ctype) = None"
  "copy_ctor (scalar_type :: 'a::len word ctype) x = x"
  by (simp_all add: scalar_type_def)













section \<open>\<open>leda_cast\<close>\<close>

text \<open>
  C2, as amended. \<open>leda_cast\<close> returns the address of \<open>x\<close> when \<open>T\<close> is larger than
  a pointer, the bytes of \<open>x\<close> read as a pointer when the sizes are equal, and
  \<open>leda_copy(x)\<close> when \<open>T\<close> is strictly smaller. That copy is made in place, into the
  bytes of the returned pointer, the rest of them zero: no branch of \<open>leda_cast\<close> allocates
  or changes dynamic memory. The overload for \<open>double\<close> returns the address.
\<close>

theorem leda_cast_branches:
  "(sizeof ty > sizeof_GenPtr pf \<longrightarrow> leda_cast pf ty (a, x) m = (a, m))
   \<and> (sizeof ty = sizeof_GenPtr pf \<longrightarrow> leda_cast pf ty (a, x) m = (to_bytes ty x, m))
   \<and> (sizeof ty < sizeof_GenPtr pf \<longrightarrow>
        leda_cast pf ty (a, x) m = leda_copy pf ty x m
        \<and> leda_copy pf ty x m =
            (to_bytes ty (copy_ctor ty x) @ replicate (sizeof_GenPtr pf - sizeof ty) 0, m))
   \<and> snd (leda_cast pf ty (a, x) m) = m
   \<and> leda_cast_double (a, d) = a"
  by (simp add: leda_cast_def leda_copy_def in_place_copy_def leda_cast_double_def)

theorem leda_cast_branches_witness:
  "sizeof (scalar_type :: 128 word ctype) > sizeof_GenPtr build64
   \<and> leda_cast build64 (scalar_type :: 128 word ctype) (ptr_bytes 8 1000, 5) fresh_memory
       = (ptr_bytes 8 1000, fresh_memory)
   \<and> sizeof double_type = sizeof_GenPtr build64
   \<and> leda_cast build64 double_type (ptr_bytes 8 1000, 5) fresh_memory
       = (to_bytes double_type 5, fresh_memory)
   \<and> sizeof int_type < sizeof_GenPtr build64
   \<and> leda_cast build64 int_type (ptr_bytes 8 1000, 5) fresh_memory
       = (to_bytes int_type (copy_ctor int_type 5) @ replicate 4 0, fresh_memory)"
  using leda_cast_branches [where ty = "scalar_type :: 128 word ctype" and pf = build64
      and a = "ptr_bytes 8 1000" and x = 5 and m = fresh_memory]
    leda_cast_branches [where ty = double_type and pf = build64
      and a = "ptr_bytes 8 1000" and x = 5 and m = fresh_memory]
    leda_cast_branches [where ty = int_type and pf = build64
      and a = "ptr_bytes 8 1000" and x = 5 and m = fresh_memory]
  by (simp add: scalar_type_simps double_type_def int_type_def build64_def)

text \<open>
  C2 as stated says that the strictly smaller case allocates. For an \<open>int\<close> and 8-byte
  pointers the allocation count and the whole memory are the same after the call.
\<close>

theorem leda_cast_small_allocates_counterexample:
  "sizeof int_type < sizeof_GenPtr build64
   \<and> allocs (snd (leda_cast build64 int_type (ptr_bytes 8 1000, 42) fresh_memory))
       = allocs fresh_memory
   \<and> snd (leda_cast build64 int_type (ptr_bytes 8 1000, 42) fresh_memory) = fresh_memory"
  by (simp add: leda_cast_def leda_copy_def int_type_def scalar_type_simps build64_def)

section \<open>Creating a scalar\<close>


lemma double_of_int_0: "double_of_int 0 = 0"
  by (simp add: double_of_int_def ieee_of_int_def)

lemma float_of_int_0: "float_of_int 0 = 0"
  by (simp add: float_of_int_def ieee_of_int_def)





section \<open>Allocation and release\<close>

lemma allocate_bytes_counts:
  "allocs (snd (allocate_bytes pf n m)) = allocs m + 1"
  "frees (snd (allocate_bytes pf n m)) = frees m"
  "cells (snd (allocate_bytes pf n m)) (fst (allocate_bytes pf n m)) = Some (replicate n (fill m))"
  by (simp_all add: allocate_bytes_def Let_def)

lemma new_default_counts:
  "allocs (snd (new_default pf ty m)) = allocs m + 1"
  "frees (snd (new_default pf ty m)) = frees m"
  "cells (snd (new_default pf ty m)) (fst (new_default pf ty m)) \<noteq> None"
  by (simp_all add: new_default_def allocate_bytes_def Let_def split: option.split)

lemma new_copy_counts:
  "allocs (snd (new_copy pf ty x m)) = allocs m + 1"
  "frees (snd (new_copy pf ty x m)) = frees m"
  "cells (snd (new_copy pf ty x m)) (fst (new_copy pf ty x m)) \<noteq> None"
  by (simp_all add: new_copy_def allocate_bytes_def Let_def)

lemma deallocate_bytes_counts:
  "deallocate_bytes a m = Inr m' \<Longrightarrow> frees m' = frees m + 1 \<and> allocs m' = allocs m \<and> cells m' a = None"
  by (auto simp: deallocate_bytes_def split: option.splits)

lemma op_delete_counts:
  "op_delete a m = Inr m' \<Longrightarrow> frees m' = frees m + 1 \<and> allocs m' = allocs m \<and> cells m' a = None"
  by (auto simp: op_delete_def run_dtor_def dest!: deallocate_bytes_counts)

lemma op_delete_live:
  "cells m a \<noteq> None \<Longrightarrow> \<exists>m'. op_delete a m = Inr m'"
  by (auto simp: op_delete_def run_dtor_def deallocate_bytes_def split: option.splits)

lemma leda_clear_big_counts:
  "sizeof ty > sizeof_GenPtr pf \<Longrightarrow> leda_clear pf ty l m = Inr m' \<Longrightarrow>
     frees m' = frees m + 1 \<and> allocs m' = allocs m"
  by (auto simp: leda_clear_def split: lvalue.splits dest: op_delete_counts)

lemma LEDA_CLEAR_live:
  assumes "sizeof ty > sizeof_GenPtr pf" and "cells m p \<noteq> None"
  shows "\<exists>m'. LEDA_CLEAR pf ty p m = Inr m' \<and> allocs m' = allocs m \<and> frees m' = frees m + 1
           \<and> cells m' p = None"
proof -
  from assms(2) obtain m' where d: "op_delete p m = Inr m'"
    using op_delete_live by blast
  with assms have "LEDA_CLEAR pf ty p m = Inr m'"
    by (auto simp: LEDA_CLEAR_def leda_access_def leda_clear_def)
  with d show ?thesis
    using op_delete_counts by blast
qed

lemma LEDA_CLEAR_double_live:
  assumes "cells m p \<noteq> None"
  shows "\<exists>m'. LEDA_CLEAR_double p m = Inr m' \<and> allocs m' = allocs m \<and> frees m' = frees m + 1
           \<and> cells m' p = None"
  using assms
  by (auto simp: LEDA_CLEAR_double_def leda_access_double_def leda_clear_double_def
      deallocate_bytes_def)

lemma create_double_counts:
  "allocs (snd (leda_create_double pf m)) = allocs m + 1"
  "frees (snd (leda_create_double pf m)) = frees m"
  "cells (snd (leda_create_double pf m)) (fst (leda_create_double pf m)) \<noteq> None"
  by (simp_all add: leda_create_double_def allocate_bytes_def Let_def)

lemma copy_double_counts:
  "allocs (snd (leda_copy_double pf x m)) = allocs m + 1"
  "frees (snd (leda_copy_double pf x m)) = frees m"
  "cells (snd (leda_copy_double pf x m)) (fst (leda_copy_double pf x m)) \<noteq> None"
  by (simp_all add: leda_copy_double_def allocate_bytes_def Let_def)

text \<open>
  C6. For a type no larger than a pointer, \<open>leda_create\<close>, \<open>leda_copy\<close> and
  \<open>leda_clear\<close> leave the counts of allocations and releases as they are. For a larger
  type each \<open>leda_create\<close> and each \<open>leda_copy\<close> allocates exactly once and releases
  nothing, clearing the slot it returned succeeds and releases exactly once, and any
  \<open>leda_clear\<close> that returns has released exactly once. The overloads for \<open>double\<close>
  allocate once per create or copy and release once per matching clear.
\<close>

theorem allocation_counts:
  "(sizeof ty \<le> sizeof_GenPtr pf \<longrightarrow>
       allocs (snd (leda_create pf ty m)) = allocs m \<and> frees (snd (leda_create pf ty m)) = frees m
     \<and> allocs (snd (leda_copy pf ty x m)) = allocs m \<and> frees (snd (leda_copy pf ty x m)) = frees m
     \<and> (\<exists>m'. leda_clear pf ty l m = Inr m' \<and> allocs m' = allocs m \<and> frees m' = frees m))
   \<and> (sizeof ty > sizeof_GenPtr pf \<longrightarrow>
       allocs (snd (leda_create pf ty m)) = allocs m + 1
     \<and> frees (snd (leda_create pf ty m)) = frees m
     \<and> allocs (snd (leda_copy pf ty x m)) = allocs m + 1
     \<and> frees (snd (leda_copy pf ty x m)) = frees m
     \<and> (\<exists>m'. LEDA_CLEAR pf ty (fst (leda_create pf ty m)) (snd (leda_create pf ty m)) = Inr m'
            \<and> allocs m' = allocs m + 1 \<and> frees m' = frees m + 1)
     \<and> (\<exists>m'. LEDA_CLEAR pf ty (fst (leda_copy pf ty x m)) (snd (leda_copy pf ty x m)) = Inr m'
            \<and> allocs m' = allocs m + 1 \<and> frees m' = frees m + 1)
     \<and> (\<forall>m'. leda_clear pf ty l m = Inr m' \<longrightarrow> allocs m' = allocs m \<and> frees m' = frees m + 1))
   \<and> allocs (snd (leda_create_double pf m)) = allocs m + 1
   \<and> allocs (snd (leda_copy_double pf d m)) = allocs m + 1
   \<and> (\<exists>m'. LEDA_CLEAR_double (fst (leda_create_double pf m)) (snd (leda_create_double pf m)) = Inr m'
          \<and> allocs m' = allocs m + 1 \<and> frees m' = frees m + 1)
   \<and> (\<exists>m'. LEDA_CLEAR_double (fst (leda_copy_double pf d m)) (snd (leda_copy_double pf d m)) = Inr m'
          \<and> allocs m' = allocs m + 1 \<and> frees m' = frees m + 1)"
proof (intro conjI impI)
  assume small: "sizeof ty \<le> sizeof_GenPtr pf"
  then show "allocs (snd (leda_create pf ty m)) = allocs m" "frees (snd (leda_create pf ty m)) = frees m"
    "allocs (snd (leda_copy pf ty x m)) = allocs m" "frees (snd (leda_copy pf ty x m)) = frees m"
    by (simp_all add: leda_create_def leda_copy_def)
  from small show "\<exists>m'. leda_clear pf ty l m = Inr m' \<and> allocs m' = allocs m \<and> frees m' = frees m"
    by (simp add: leda_clear_def run_dtor_def)
next
  assume big: "sizeof_GenPtr pf < sizeof ty"
  then have c: "leda_create pf ty m = new_default pf ty m" "leda_copy pf ty x m = new_copy pf ty x m"
    by (simp_all add: leda_create_def leda_copy_def)
  show "allocs (snd (leda_create pf ty m)) = allocs m + 1" "frees (snd (leda_create pf ty m)) = frees m"
    "allocs (snd (leda_copy pf ty x m)) = allocs m + 1" "frees (snd (leda_copy pf ty x m)) = frees m"
    by (simp_all add: c new_default_counts new_copy_counts)
  show "\<exists>m'. LEDA_CLEAR pf ty (fst (leda_create pf ty m)) (snd (leda_create pf ty m)) = Inr m'
            \<and> allocs m' = allocs m + 1 \<and> frees m' = frees m + 1"
    using LEDA_CLEAR_live [OF big new_default_counts(3) [of pf ty m]]
    by (auto simp: c new_default_counts)
  show "\<exists>m'. LEDA_CLEAR pf ty (fst (leda_copy pf ty x m)) (snd (leda_copy pf ty x m)) = Inr m'
            \<and> allocs m' = allocs m + 1 \<and> frees m' = frees m + 1"
    using LEDA_CLEAR_live [OF big new_copy_counts(3) [of pf ty x m]]
    by (auto simp: c new_copy_counts)
  show "\<forall>m'. leda_clear pf ty l m = Inr m' \<longrightarrow> allocs m' = allocs m \<and> frees m' = frees m + 1"
    using leda_clear_big_counts [OF big] by blast
next
  show "allocs (snd (leda_create_double pf m)) = allocs m + 1"
    "allocs (snd (leda_copy_double pf d m)) = allocs m + 1"
    by (simp_all add: create_double_counts copy_double_counts)
  show "\<exists>m'. LEDA_CLEAR_double (fst (leda_create_double pf m)) (snd (leda_create_double pf m)) = Inr m'
          \<and> allocs m' = allocs m + 1 \<and> frees m' = frees m + 1"
    using LEDA_CLEAR_double_live [OF create_double_counts(3) [of pf m]]
    by (auto simp: create_double_counts)
  show "\<exists>m'. LEDA_CLEAR_double (fst (leda_copy_double pf d m)) (snd (leda_copy_double pf d m)) = Inr m'
          \<and> allocs m' = allocs m + 1 \<and> frees m' = frees m + 1"
    using LEDA_CLEAR_double_live [OF copy_double_counts(3) [of pf d m]]
    by (auto simp: copy_double_counts)
qed


theorem allocation_counts_witness:
  "sizeof int_type \<le> sizeof_GenPtr build64
   \<and> allocs (snd (leda_create build64 int_type fresh_memory)) = allocs fresh_memory
   \<and> allocs (snd (leda_copy build64 int_type 42 fresh_memory)) = allocs fresh_memory
   \<and> (\<exists>m'. leda_clear build64 int_type In_slot fresh_memory = Inr m'
          \<and> allocs m' = allocs fresh_memory \<and> frees m' = frees fresh_memory)
   \<and> sizeof (scalar_type :: 128 word ctype) > sizeof_GenPtr build64
   \<and> allocs (snd (leda_copy build64 (scalar_type :: 128 word ctype) 42 fresh_memory))
       = allocs fresh_memory + 1
   \<and> (\<exists>m'. LEDA_CLEAR build64 (scalar_type :: 128 word ctype)
            (fst (leda_copy build64 (scalar_type :: 128 word ctype) 42 fresh_memory))
            (snd (leda_copy build64 (scalar_type :: 128 word ctype) 42 fresh_memory)) = Inr m'
          \<and> allocs m' = allocs fresh_memory + 1 \<and> frees m' = frees fresh_memory + 1)"
proof -
  have a: "sizeof int_type \<le> sizeof_GenPtr build64"
    by (simp add: int_type_def scalar_type_simps build64_def)
  have b: "sizeof (scalar_type :: 128 word ctype) > sizeof_GenPtr build64"
    by (simp add: scalar_type_simps build64_def)
  show ?thesis
    using a b
      allocation_counts [where ty = int_type and pf = build64 and m = fresh_memory
        and x = 42 and l = In_slot and d = 0]
      allocation_counts [where ty = "scalar_type :: 128 word ctype" and pf = build64
        and m = fresh_memory and x = 42 and l = In_slot and d = 0]
    by simp
qed

section \<open>One size class for every operation\<close>

text \<open>
  C4. The five operations test the same predicate. When \<open>sizeof(T) \<le> sizeof(GenPtr)\<close>,
  equality included, \<open>leda_create\<close> and \<open>leda_copy\<close> leave dynamic memory alone,
  \<open>leda_clear\<close> releases nothing, and \<open>leda_access\<close> and \<open>leda_const_access\<close> never
  fail and designate the bytes of the slot. When \<open>sizeof(T) > sizeof(GenPtr)\<close>, create and
  copy allocate, a clear that returns has released a block, and the two accesses
  designate the block the slot points to. Where the overloads for \<open>double\<close> are declared
  on a consistent build, \<open>double\<close> is larger than a pointer and all of them act on
  dynamic memory.
\<close>

theorem size_class_consistent:
  "(sizeof ty \<le> sizeof_GenPtr pf \<longrightarrow>
       snd (leda_create pf ty m) = m
     \<and> snd (leda_copy pf ty x m) = m
     \<and> (\<exists>m'. leda_clear pf ty l m = Inr m' \<and> cells m' = cells m
            \<and> allocs m' = allocs m \<and> frees m' = frees m)
     \<and> (\<exists>v. leda_access pf ty p m = Inr \<lparr>target = In_slot, held = v\<rparr>)
     \<and> (\<exists>v. leda_const_access pf ty p m = Inr \<lparr>target = In_slot, held = v\<rparr>))
   \<and> (sizeof ty > sizeof_GenPtr pf \<longrightarrow>
       allocs (snd (leda_create pf ty m)) = allocs m + 1
     \<and> allocs (snd (leda_copy pf ty x m)) = allocs m + 1
     \<and> (\<forall>m'. leda_clear pf ty l m = Inr m' \<longrightarrow> frees m' = frees m + 1)
     \<and> (\<forall>r. leda_access pf ty p m = Inr r \<longrightarrow> target r = At p)
     \<and> (\<forall>r. leda_const_access pf ty p m = Inr r \<longrightarrow> target r = At p))
   \<and> (consistent_build pf \<and> WORD_LENGTH_32 pf \<longrightarrow>
       sizeof double_type > sizeof_GenPtr pf
     \<and> allocs (snd (leda_create_double pf m)) = allocs m + 1
     \<and> allocs (snd (leda_copy_double pf d m)) = allocs m + 1
     \<and> (\<forall>m'. leda_clear_double l m = Inr m' \<longrightarrow> frees m' = frees m + 1)
     \<and> (\<forall>r. leda_access_double p m = Inr r \<longrightarrow> target r = At p)
     \<and> (\<forall>r. leda_const_access_double p m = Inr r \<longrightarrow> target r = At p))"
proof (intro conjI impI)
  assume small: "sizeof ty \<le> sizeof_GenPtr pf"
  then show "snd (leda_create pf ty m) = m" "snd (leda_copy pf ty x m) = m"
    by (simp_all add: leda_create_def leda_copy_def)
  from small show "\<exists>m'. leda_clear pf ty l m = Inr m' \<and> cells m' = cells m
            \<and> allocs m' = allocs m \<and> frees m' = frees m"
    by (simp add: leda_clear_def run_dtor_def)
  from small show "\<exists>v. leda_access pf ty p m = Inr \<lparr>target = In_slot, held = v\<rparr>"
    "\<exists>v. leda_const_access pf ty p m = Inr \<lparr>target = In_slot, held = v\<rparr>"
    by (simp_all add: leda_access_def leda_const_access_def)
next
  assume big: "sizeof_GenPtr pf < sizeof ty"
  then show "allocs (snd (leda_create pf ty m)) = allocs m + 1"
    "allocs (snd (leda_copy pf ty x m)) = allocs m + 1"
    by (simp_all add: leda_create_def leda_copy_def new_default_counts new_copy_counts)
  show "\<forall>m'. leda_clear pf ty l m = Inr m' \<longrightarrow> frees m' = frees m + 1"
    using leda_clear_big_counts [OF big] by blast
  from big show "\<forall>r. leda_access pf ty p m = Inr r \<longrightarrow> target r = At p"
    "\<forall>r. leda_const_access pf ty p m = Inr r \<longrightarrow> target r = At p"
    by (auto simp: leda_access_def leda_const_access_def split: option.splits)
next
  assume "consistent_build pf \<and> WORD_LENGTH_32 pf"
  then show "sizeof_GenPtr pf < sizeof double_type"
    by (auto simp: consistent_build_def)
next
  show "allocs (snd (leda_create_double pf m)) = allocs m + 1"
    "allocs (snd (leda_copy_double pf d m)) = allocs m + 1"
    by (simp_all add: create_double_counts copy_double_counts)
  show "\<forall>m'. leda_clear_double l m = Inr m' \<longrightarrow> frees m' = frees m + 1"
    by (auto simp: leda_clear_double_def split: lvalue.splits dest: deallocate_bytes_counts)
  show "\<forall>r. leda_access_double p m = Inr r \<longrightarrow> target r = At p"
    "\<forall>r. leda_const_access_double p m = Inr r \<longrightarrow> target r = At p"
    by (auto simp: leda_access_double_def leda_const_access_double_def split: option.splits)
qed

theorem size_class_consistent_witness:
  "sizeof int_type = sizeof_GenPtr build32
   \<and> snd (leda_create build32 int_type fresh_memory) = fresh_memory
   \<and> snd (leda_copy build32 int_type 42 fresh_memory) = fresh_memory
   \<and> (\<exists>m'. leda_clear build32 int_type In_slot fresh_memory = Inr m'
          \<and> cells m' = cells fresh_memory \<and> frees m' = frees fresh_memory)
   \<and> (\<exists>v. leda_access build32 int_type [42, 0, 0, 0] fresh_memory
            = Inr \<lparr>target = In_slot, held = v\<rparr>)
   \<and> (\<exists>v. leda_const_access build32 int_type [42, 0, 0, 0] fresh_memory
            = Inr \<lparr>target = In_slot, held = v\<rparr>)
   \<and> sizeof (scalar_type :: 128 word ctype) > sizeof_GenPtr build64
   \<and> allocs (snd (leda_create build64 (scalar_type :: 128 word ctype) fresh_memory))
       = allocs fresh_memory + 1
   \<and> consistent_build build32 \<and> WORD_LENGTH_32 build32
   \<and> sizeof double_type > sizeof_GenPtr build32
   \<and> allocs (snd (leda_create_double build32 fresh_memory)) = allocs fresh_memory + 1"
proof -
  have a: "sizeof int_type = sizeof_GenPtr build32"
    by (simp add: int_type_def scalar_type_simps build32_def)
  have b: "sizeof (scalar_type :: 128 word ctype) > sizeof_GenPtr build64"
    by (simp add: scalar_type_simps build64_def)
  have c: "consistent_build build32 \<and> WORD_LENGTH_32 build32"
    by (simp add: consistent_build_def build32_def double_type_def scalar_type_simps)
  show ?thesis
    using a b c
      size_class_consistent [where ty = int_type and pf = build32 and m = fresh_memory
        and x = 42 and l = In_slot and p = "[42, 0, 0, 0]" and d = 0]
      size_class_consistent [where ty = "scalar_type :: 128 word ctype" and pf = build64
        and m = fresh_memory and x = 42 and l = In_slot and p = "[]" and d = 0]
    by auto
qed

section \<open>Three-way comparison\<close>

lemma strict_order_asym: "strict_order lt \<Longrightarrow> lt x y \<Longrightarrow> \<not> lt y x"
  unfolding strict_order_def by blast

text \<open>
  C5. Where \<open><\<close> is a strict order, \<open>compare(x,y)\<close> is \<open>-1\<close> if \<open>x < y\<close>, \<open>+1\<close> if
  \<open>y < x\<close>, and \<open>0\<close> otherwise; where it is a strict weak order,
  \<open>compare(x,y) = -compare(y,x)\<close> and \<open>compare(x,x) = 0\<close>.
\<close>

theorem compare_three_way:
  "(strict_order lt \<longrightarrow>
       (lt x y \<longrightarrow> compare lt x y = - 1)
     \<and> (lt y x \<longrightarrow> compare lt x y = 1)
     \<and> (\<not> lt x y \<and> \<not> lt y x \<longrightarrow> compare lt x y = 0))
   \<and> (strict_weak_order lt \<longrightarrow>
       compare lt x y = - compare lt y x \<and> compare lt x x = 0)"
proof (intro conjI impI)
  assume so: "strict_order lt"
  show "lt x y \<Longrightarrow> compare lt x y = - 1" by (simp add: compare_def)
  show "lt y x \<Longrightarrow> compare lt x y = 1"
    using strict_order_asym [OF so, of y x] by (simp add: compare_def)
  show "\<not> lt x y \<and> \<not> lt y x \<Longrightarrow> compare lt x y = 0" by (simp add: compare_def)
next
  assume "strict_weak_order lt"
  then have so: "strict_order lt" by (simp add: strict_weak_order_def)
  show "compare lt x y = - compare lt y x"
    using strict_order_asym [OF so, of x y] by (simp add: compare_def)
  show "compare lt x x = 0"
    using so by (simp add: compare_def strict_order_def)
qed

theorem compare_three_way_witness:
  "strict_order ((<) :: 32 word \<Rightarrow> 32 word \<Rightarrow> bool)
   \<and> strict_weak_order ((<) :: 32 word \<Rightarrow> 32 word \<Rightarrow> bool)
   \<and> compare (<) (3 :: 32 word) 5 = - 1
   \<and> compare (<) (5 :: 32 word) 3 = 1
   \<and> compare (<) (3 :: 32 word) 5 = - compare (<) (5 :: 32 word) 3
   \<and> compare (<) (3 :: 32 word) 3 = 0"
proof -
  have a: "strict_order ((<) :: 32 word \<Rightarrow> 32 word \<Rightarrow> bool)"
    by (auto simp: strict_order_def)
  have b: "strict_weak_order ((<) :: 32 word \<Rightarrow> 32 word \<Rightarrow> bool)"
    using a by (auto simp: strict_weak_order_def)
  show ?thesis
    using a b compare_three_way [of "(<) :: 32 word \<Rightarrow> 32 word \<Rightarrow> bool" 3 5]
      compare_three_way [of "(<) :: 32 word \<Rightarrow> 32 word \<Rightarrow> bool" 5 3]
    by simp
qed

section \<open>The input operator\<close>

text \<open>
  C7, as amended. The input operator fails on every call: it reports error 1 with the
  message \<open>stream input operator (>>) not defined\<close>, never returns a stream, and the
  caller's pointer is what it was.
\<close>

theorem operator_in_fails:
  "operator_in ins p = (Inl (Fatal 1 ''stream input operator (>>) not defined''), p)"
  by (simp add: operator_in_def error_handler_def)

text \<open>
  C7 as stated names the message \<open>stream input not defined\<close>; that is not what is
  reported.
\<close>

theorem operator_in_message_counterexample:
  "fst (operator_in (0 :: nat) (ptr_bytes 8 4096)) \<noteq> Inl (Fatal 1 ''stream input not defined'')"
  by (simp add: operator_in_def error_handler_def)

section \<open>The comparator with virtual dispatch\<close>

text \<open>
  C8, as amended. A \<open>leda_cmp_base\<close> with no comparison function (after default
  construction, or constructed with a null pointer and either flag) reports the fatal
  error 1 with the message \<open>leda_cmp_base: compare undefined\<close>; one constructed with a
  function \<open>c\<close> returns exactly \<open>c(x,y)\<close>.
\<close>

theorem leda_cmp_base_call_result:
  "leda_cmp_base_call leda_cmp_base_default x y
       = Inl (Fatal 1 ''leda_cmp_base: compare undefined'')
   \<and> leda_cmp_base_call (leda_cmp_base_ctor None dyn) x y
       = Inl (Fatal 1 ''leda_cmp_base: compare undefined'')
   \<and> leda_cmp_base_call (leda_cmp_base_ctor (Some c) dyn) x y = Inr (c x y)"
  by (simp add: leda_cmp_base_call_def leda_cmp_base_default_def leda_cmp_base_ctor_def
      error_handler_def)

text \<open>
  C8 as stated names the message \<open>compare undefined\<close>; the reported message carries
  the prefix \<open>leda_cmp_base: \<close>.
\<close>

theorem leda_cmp_base_message_counterexample:
  "leda_cmp_base_call leda_cmp_base_default (1 :: int) 2 \<noteq> Inl (Fatal 1 ''compare undefined'')"
  by (simp add: leda_cmp_base_call_def leda_cmp_base_default_def leda_cmp_base_ctor_def
      error_handler_def)

section \<open>Ordering predicates\<close>

text \<open>
  C9. Each ordering predicate is true exactly when its three-way comparison of
  \<open>(x, y)\<close> is negative: \<open>smaller_default\<close> on \<open>compare\<close>, \<open>smaller_cmp_func\<close> on
  the wrapped function, \<open>smaller_cmp_obj\<close> on the wrapped comparator object. For
  \<open>smaller_default\<close> that is exactly \<open>x < y\<close>.
\<close>

theorem smaller_wrappers:
  "(smaller_default lt x y \<longleftrightarrow> compare lt x y < 0)
   \<and> smaller_cmp_func (Some c) x y = Inr (c x y < 0)
   \<and> (smaller_cmp_obj f x y \<longleftrightarrow> f x y < 0)
   \<and> (smaller_default lt x y \<longleftrightarrow> lt x y)"
  by (simp add: smaller_default_def smaller_cmp_func_def smaller_cmp_obj_def compare_def)

section \<open>Default values of the scalars\<close>

text \<open>
  C10. Each scalar overload of \<open>leda_init_default\<close>, which assigns \<open>0\<close>, leaves its
  argument with the value the template leaves it with, which assigns \<open>T()\<close>: for
  \<open>char\<close>, \<open>short\<close>, \<open>int\<close>, \<open>long\<close> (of 4 and of 8 bytes), their unsigned
  counterparts, \<open>float\<close> and \<open>double\<close>.
\<close>

theorem init_default_overloads:
  "leda_init_default_char c = leda_init_default char_type c
   \<and> leda_init_default_short s = leda_init_default short_type s
   \<and> leda_init_default_int i = leda_init_default int_type i
   \<and> leda_init_default_long l4 = leda_init_default long_type4 l4
   \<and> leda_init_default_long l8 = leda_init_default long_type8 l8
   \<and> leda_init_default_uchar uc = leda_init_default uchar_type uc
   \<and> leda_init_default_ushort us = leda_init_default ushort_type us
   \<and> leda_init_default_uint ui = leda_init_default uint_type ui
   \<and> leda_init_default_ulong ul4 = leda_init_default ulong_type4 ul4
   \<and> leda_init_default_ulong ul8 = leda_init_default ulong_type8 ul8
   \<and> leda_init_default_float f = leda_init_default float_type f
   \<and> leda_init_default_double d = leda_init_default double_type d"
  by (simp add: leda_init_default_def leda_init_default_char_def leda_init_default_short_def
      leda_init_default_int_def leda_init_default_long_def leda_init_default_uchar_def
      leda_init_default_ushort_def leda_init_default_uint_def leda_init_default_ulong_def
      leda_init_default_float_def leda_init_default_double_def
      char_type_def short_type_def int_type_def long_type4_def long_type8_def
      uchar_type_def ushort_type_def uint_type_def ulong_type4_def ulong_type8_def
      float_type_def double_type_def scalar_type_simps float_of_int_0 double_of_int_0)


end
